theory Spec2Isabelle
  imports Main "HOL-Library.Word" "HOL-Library.AList"
begin

section \<open>Byte strings and the scrypt-ts helpers the contract calls\<close>

text \<open>
  The contract \<^verbatim>\<open>BountyContract.ts\<close> is written against the scrypt-ts library. Its data are
  byte strings (\<^verbatim>\<open>Addr\<close>, \<^verbatim>\<open>PubKey\<close>, \<^verbatim>\<open>Sig\<close>) and big integers. The cryptographic primitives
  (\<^verbatim>\<open>checkSig\<close>, \<^verbatim>\<open>hash256\<close>, \<^verbatim>\<open>pubKey2Addr\<close>) are library code evaluated against the spending
  transaction; they are parameters of the model, collected in one record.
\<close>

type_synonym byte = "8 word"
type_synonym ByteString = "byte list"
type_synonym Sig = ByteString
type_synonym PubKey = ByteString
type_synonym Addr = ByteString

record crypto =
  checkSig :: "Sig \<Rightarrow> PubKey \<Rightarrow> bool"
  hash256 :: "ByteString \<Rightarrow> ByteString"
  pubKey2Addr :: "PubKey \<Rightarrow> Addr"

text \<open>
  \<^verbatim>\<open>Utils.toLEUnsigned(n, l)\<close>: the \<open>l\<close> low bytes of \<open>n\<close>, least significant first.
\<close>

fun toLEUnsigned :: "nat \<Rightarrow> nat \<Rightarrow> ByteString" where
  "toLEUnsigned n 0 = []"
| "toLEUnsigned n (Suc l) = of_nat (n mod 256) # toLEUnsigned (n div 256) l"

text \<open>
  \<^verbatim>\<open>Utils.writeVarint(buf)\<close>: the byte string behind its length as a Bitcoin variable-length
  integer. The library leaves the header empty for a length of \<open>2^64\<close> or more.
\<close>

definition writeVarint :: "ByteString \<Rightarrow> ByteString" where
  "writeVarint buf =
     (let n = length buf;
          header =
            (if n < 0xfd then toLEUnsigned n 1
             else if n < 0x10000 then 0xfd # toLEUnsigned n 2
             else if n < 0x100000000 then 0xfe # toLEUnsigned n 4
             else if n < 0x10000000000000000 then 0xff # toLEUnsigned n 8
             else [])
      in header @ buf)"

text \<open>
  \<^verbatim>\<open>Utils.buildOutput(outputScript, outputSatoshis)\<close> is
  \<^verbatim>\<open>int2ByteString(outputSatoshis, 8n) + writeVarint(outputScript)\<close>. A ledger amount is
  below \<open>2^63\<close>, where the eight-byte sign-magnitude encoding of \<^verbatim>\<open>int2ByteString\<close> is the
  little-endian one.
\<close>

definition buildOutput :: "ByteString \<Rightarrow> nat \<Rightarrow> ByteString" where
  "buildOutput outputScript outputSatoshis =
     toLEUnsigned outputSatoshis 8 @ writeVarint outputScript"

text \<open>
  \<^verbatim>\<open>Utils.buildPublicKeyHashScript(pubKeyHash)\<close>:
  \<^verbatim>\<open>OP_DUP OP_HASH160 OP_PUSHBYTES_20 pubKeyHash OP_EQUALVERIFY OP_CHECKSIG\<close>.
\<close>

definition buildPublicKeyHashScript :: "Addr \<Rightarrow> ByteString" where
  "buildPublicKeyHashScript pubKeyHash = [0x76, 0xa9, 0x14] @ pubKeyHash @ [0x88, 0xac]"

definition buildPublicKeyHashOutput :: "Addr \<Rightarrow> nat \<Rightarrow> ByteString" where
  "buildPublicKeyHashOutput pubKeyHash amount =
     buildOutput (buildPublicKeyHashScript pubKeyHash) amount"

section \<open>The script context\<close>

text \<open>
  \<^verbatim>\<open>this.ctx\<close> as the contract reads it: the value of the output being spent, the outputs
  hash of the spending transaction, and the spending transaction's \<^verbatim>\<open>nLocktime\<close> and the
  spending input's \<^verbatim>\<open>nSequence\<close>.
\<close>

record ScriptContext =
  utxo_value :: nat
  hashOutputs :: ByteString
  locktime :: int
  sequence :: int

text \<open>
  \<^verbatim>\<open>SmartContract.timeLock(locktime)\<close> of scrypt-ts: the input's sequence number must leave
  \<^verbatim>\<open>nLocktime\<close> enforced, a block-height deadline needs a block-height \<^verbatim>\<open>nLocktime\<close>, and the
  transaction's \<^verbatim>\<open>nLocktime\<close> must have reached the deadline. The ledger admits a transaction
  only once chain time has reached its \<^verbatim>\<open>nLocktime\<close>, so \<^verbatim>\<open>ctx.locktime\<close> is the chain time the
  contract sees.
\<close>

definition timeLock :: "ScriptContext \<Rightarrow> int \<Rightarrow> bool" where
  "timeLock ctx lt =
     (sequence ctx < 0xffffffff \<and>
      (if lt < 500000000 then locktime ctx < 500000000 else True) \<and>
      lt \<le> locktime ctx)"

section \<open>BountyContract\<close>

record BountyContract =
  funderAddr :: Addr
  issueId :: int
  repoOwner :: PubKey
  certifierPubKey :: PubKey
  deadline :: int

text \<open>
  A public method either returns or fails one of its \<^verbatim>\<open>assert\<close>s; a failed assertion makes
  the spending transaction invalid. The model returns \<open>Inr ()\<close> when every assertion holds
  and \<open>Inl msg\<close> with the message of the first assertion that fails.
\<close>

definition paySolver ::
  "crypto \<Rightarrow> BountyContract \<Rightarrow> ScriptContext \<Rightarrow> Sig \<Rightarrow> PubKey \<Rightarrow> Sig \<Rightarrow> Sig \<Rightarrow> string + unit" where
  "paySolver K c ctx solverSig solverPubKey ownerSig certifierSig =
     (if \<not> checkSig K solverSig solverPubKey then Inl ''solver signature check failed''
      else if \<not> checkSig K ownerSig (repoOwner c) then Inl ''repo owner signature check failed''
      else if \<not> checkSig K certifierSig (certifierPubKey c)
        then Inl ''certifier signature check failed''
      else
        (let amount = utxo_value ctx;
             solverAddr = pubKey2Addr K solverPubKey;
             out = buildPublicKeyHashOutput solverAddr amount
         in if hash256 K out = hashOutputs ctx then Inr () else Inl ''hashOutputs mismatch''))"

definition refundExpired ::
  "crypto \<Rightarrow> BountyContract \<Rightarrow> ScriptContext \<Rightarrow> Sig \<Rightarrow> PubKey \<Rightarrow> string + unit" where
  "refundExpired K c ctx funderSig funderPubKey =
     (if pubKey2Addr K funderPubKey \<noteq> funderAddr c then Inl ''invalid public key for funder''
      else if \<not> checkSig K funderSig funderPubKey then Inl ''funder signature check failed''
      else if \<not> timeLock ctx (deadline c) then Inl ''deadline not yet reached''
      else
        (let amount = utxo_value ctx;
             out = buildPublicKeyHashOutput (funderAddr c) amount
         in if hash256 K out = hashOutputs ctx then Inr () else Inl ''hashOutputs mismatch''))"

definition cancelBounty ::
  "crypto \<Rightarrow> BountyContract \<Rightarrow> ScriptContext \<Rightarrow> Sig \<Rightarrow> PubKey \<Rightarrow> Sig \<Rightarrow> string + unit" where
  "cancelBounty K c ctx funderSig funderPubKey ownerSig =
     (if pubKey2Addr K funderPubKey \<noteq> funderAddr c then Inl ''invalid public key for funder''
      else if \<not> checkSig K funderSig funderPubKey then Inl ''funder signature check failed''
      else if \<not> checkSig K ownerSig (repoOwner c) then Inl ''repo owner signature check failed''
      else
        (let amount = utxo_value ctx;
             out = buildPublicKeyHashOutput (funderAddr c) amount
         in if hash256 K out = hashOutputs ctx then Inr () else Inl ''hashOutputs mismatch''))"

section \<open>The spending transaction as the contract sees it\<close>

text \<open>
  \<^verbatim>\<open>this.ctx\<close> is derived from the spending transaction under the signature-hash type of the
  method's \<^verbatim>\<open>@method\<close> decorator. Only \<^verbatim>\<open>paySolver\<close> names one,
  \<^verbatim>\<open>SigHash.ANYONECANPAY_SINGLE\<close>; \<^verbatim>\<open>refundExpired\<close> and \<^verbatim>\<open>cancelBounty\<close> take the default
  \<^verbatim>\<open>SigHash.ALL\<close>.
\<close>

datatype SigHash = SigHash_ALL | SigHash_NONE | SigHash_SINGLE
  | SigHash_ANYONECANPAY_ALL | SigHash_ANYONECANPAY_NONE | SigHash_ANYONECANPAY_SINGLE

record TxOutput =
  satoshis :: nat
  script :: ByteString

record SpendingTx =
  outputs :: "TxOutput list"
  inputIndex :: nat
  spentValue :: nat
  nLocktime :: int
  nSequence :: int

definition serializeOutput :: "TxOutput \<Rightarrow> ByteString" where
  "serializeOutput out = buildOutput (script out) (satoshis out)"

text \<open>
  The \<^verbatim>\<open>hashOutputs\<close> field of the signature-hash preimage: under a type that is neither
  \<^verbatim>\<open>SINGLE\<close> nor \<^verbatim>\<open>NONE\<close> the double SHA-256 of all serialized outputs; under \<^verbatim>\<open>SINGLE\<close>, when
  the input's index is below the number of outputs, that of the one output with the input's
  index; otherwise thirty-two zero bytes.
\<close>

definition hashOutputsOf :: "crypto \<Rightarrow> SigHash \<Rightarrow> SpendingTx \<Rightarrow> ByteString" where
  "hashOutputsOf K sh tx =
     (if sh = SigHash_ALL \<or> sh = SigHash_ANYONECANPAY_ALL
        then hash256 K (concat (map serializeOutput (outputs tx)))
      else if (sh = SigHash_SINGLE \<or> sh = SigHash_ANYONECANPAY_SINGLE)
              \<and> inputIndex tx < length (outputs tx)
        then hash256 K (serializeOutput (outputs tx ! inputIndex tx))
      else replicate 32 0)"

definition scriptContext :: "crypto \<Rightarrow> SigHash \<Rightarrow> SpendingTx \<Rightarrow> ScriptContext" where
  "scriptContext K sh tx =
     \<lparr>utxo_value = spentValue tx, hashOutputs = hashOutputsOf K sh tx,
      locktime = nLocktime tx, sequence = nSequence tx\<rparr>"

definition spend_paySolver ::
  "crypto \<Rightarrow> BountyContract \<Rightarrow> SpendingTx \<Rightarrow> Sig \<Rightarrow> PubKey \<Rightarrow> Sig \<Rightarrow> Sig \<Rightarrow> string + unit" where
  "spend_paySolver K c tx solverSig solverPubKey ownerSig certifierSig =
     paySolver K c (scriptContext K SigHash_ANYONECANPAY_SINGLE tx)
       solverSig solverPubKey ownerSig certifierSig"

definition spend_refundExpired ::
  "crypto \<Rightarrow> BountyContract \<Rightarrow> SpendingTx \<Rightarrow> Sig \<Rightarrow> PubKey \<Rightarrow> string + unit" where
  "spend_refundExpired K c tx funderSig funderPubKey =
     refundExpired K c (scriptContext K SigHash_ALL tx) funderSig funderPubKey"

definition spend_cancelBounty ::
  "crypto \<Rightarrow> BountyContract \<Rightarrow> SpendingTx \<Rightarrow> Sig \<Rightarrow> PubKey \<Rightarrow> Sig \<Rightarrow> string + unit" where
  "spend_cancelBounty K c tx funderSig funderPubKey ownerSig =
     cancelBounty K c (scriptContext K SigHash_ALL tx) funderSig funderPubKey ownerSig"

text \<open>The single required payout: the full value to the pay-to-public-key-hash script.\<close>

definition payout :: "Addr \<Rightarrow> nat \<Rightarrow> TxOutput" where
  "payout addr amount = \<lparr>satoshis = amount, script = buildPublicKeyHashScript addr\<rparr>"

text \<open>Two different byte strings with the same hash.\<close>

definition collision :: "crypto \<Rightarrow> ByteString \<Rightarrow> ByteString \<Rightarrow> bool" where
  "collision K x y = (x \<noteq> y \<and> hash256 K x = hash256 K y)"

text \<open>
  An output as the wire format can carry it: an amount of eight bytes and a script whose
  length the variable-length integer can express.
\<close>

definition wellFormedOutput :: "TxOutput \<Rightarrow> bool" where
  "wellFormedOutput out = (satoshis out < 2 ^ 64 \<and> length (script out) < 2 ^ 64)"

section \<open>The MongoDB store\<close>

text \<open>
  The services keep two collections of the database \<^verbatim>\<open>bounty-overlay\<close>: \<^verbatim>\<open>bounties\<close> and
  \<^verbatim>\<open>github-identities\<close>. A bounty document is schemaless: \<^verbatim>\<open>outputAdded\<close> and \<^verbatim>\<open>createBounty\<close>
  insert documents with different fields, and \<^verbatim>\<open>lookup\<close> filters on a field neither of them
  writes. A document is therefore an association list from field names to values, in
  insertion order, and a collection is the list of its documents in insertion order.
\<close>

datatype bson = BString string | BNumber int | BDate int | BBytes ByteString

type_synonym document = "(string \<times> bson) list"

text \<open>
  An equality filter \<^verbatim>\<open>{f1: v1, ...}\<close>: a document matches when each named field is present
  with that value. (No filter of this code names \<^verbatim>\<open>script\<close>, the only array-valued field.)
\<close>

definition matches :: "document \<Rightarrow> document \<Rightarrow> bool" where
  "matches q d = list_all (\<lambda>(f, v). map_of d f = Some v) q"

definition findOne :: "document \<Rightarrow> document list \<Rightarrow> document option" where
  "findOne q docs = find (matches q) docs"

definition findAll :: "document \<Rightarrow> document list \<Rightarrow> document list" where
  "findAll q docs = filter (matches q) docs"

text \<open>\<^verbatim>\<open>$set\<close>: each named field is overwritten in place, or appended when absent.\<close>

definition setFields :: "document \<Rightarrow> document \<Rightarrow> document" where
  "setFields u d = fold (\<lambda>(f, v). AList.update f v) u d"

text \<open>\<^verbatim>\<open>updateOne(filter, {$set: u})\<close> without upsert: the first match is updated, if any.\<close>

fun updateOne :: "document \<Rightarrow> document \<Rightarrow> document list \<Rightarrow> document list" where
  "updateOne q u [] = []"
| "updateOne q u (d # ds) = (if matches q d then setFields u d # ds else d # updateOne q u ds)"

fun deleteOne :: "document \<Rightarrow> document list \<Rightarrow> document list" where
  "deleteOne q [] = []"
| "deleteOne q (d # ds) = (if matches q d then ds else d # deleteOne q ds)"

text \<open>
  \<^verbatim>\<open>createMongoDBIndexes\<close> puts a unique index on \<^verbatim>\<open>{txid, outputIndex, topic}\<close> of \<^verbatim>\<open>bounties\<close>
  (a missing field is indexed as null). \<^verbatim>\<open>insertOne\<close> on the collection so set up raises a
  duplicate-key error when the key is taken and appends the document otherwise.
\<close>

datatype error = DuplicateKey | Error string

definition indexKey :: "document \<Rightarrow> bson option \<times> bson option \<times> bson option" where
  "indexKey d = (map_of d ''txid'', map_of d ''outputIndex'', map_of d ''topic'')"

definition insertOne :: "document \<Rightarrow> document list \<Rightarrow> error + document list" where
  "insertOne d docs =
     (if indexKey d \<in> set (map indexKey docs) then Inl DuplicateKey else Inr (docs @ [d]))"

definition uniqueKeys :: "document list \<Rightarrow> bool" where
  "uniqueKeys docs = distinct (map indexKey docs)"

text \<open>
  An identity document as \<^verbatim>\<open>storeGitHubIdentity\<close> writes it (interface \<^verbatim>\<open>GitHubIdentity\<close>); the
  e-mail address, the certificate fields and the timestamps are left out, nothing here
  reads them.
\<close>

record GitHubIdentity =
  username :: string
  identityKey :: string

record db =
  bounties :: "document list"
  githubIdentities :: "GitHubIdentity list"

definition emptyDb :: db where
  "emptyDb = \<lparr>bounties = [], githubIdentities = []\<rparr>"

section \<open>GitHubIdentityService\<close>

text \<open>
  \<^verbatim>\<open>storeGitHubIdentity\<close> is \<^verbatim>\<open>updateOne({username}, {$set: identity}, {upsert: true})\<close>.
  \<^verbatim>\<open>createMongoDBIndexes\<close> makes \<^verbatim>\<open>username\<close> and \<^verbatim>\<open>identityKey\<close> unique in the collection, so
  the call raises the duplicate-key error when another user holds the key.
\<close>

fun upsertIdentity :: "GitHubIdentity \<Rightarrow> GitHubIdentity list \<Rightarrow> GitHubIdentity list" where
  "upsertIdentity i [] = [i]"
| "upsertIdentity i (j # js) =
     (if username j = username i then i # js else j # upsertIdentity i js)"

definition storeGitHubIdentity :: "string \<Rightarrow> string \<Rightarrow> db \<Rightarrow> error + db" where
  "storeGitHubIdentity name key D =
     (if list_ex (\<lambda>j. identityKey j = key \<and> username j \<noteq> name) (githubIdentities D)
        then Inl DuplicateKey
      else
        Inr (D\<lparr>githubIdentities :=
                 upsertIdentity \<lparr>username = name, identityKey = key\<rparr> (githubIdentities D)\<rparr>))"

definition getGitHubIdentityByUsername :: "db \<Rightarrow> string \<Rightarrow> GitHubIdentity option" where
  "getGitHubIdentityByUsername D name = find (\<lambda>i. username i = name) (githubIdentities D)"

section \<open>BountyLookupService\<close>

text \<open>
  The three ledger-observation handlers. Each wraps its database call in \<^verbatim>\<open>try\<close>/\<^verbatim>\<open>catch\<close>
  and only logs what it catches, so a handler always returns; it returns the database as
  the call left it. The time argument is the \<^verbatim>\<open>new Date()\<close> the handler reads.
\<close>

definition keyFilter :: "string \<Rightarrow> int \<Rightarrow> string \<Rightarrow> document" where
  "keyFilter txid outputIndex topic =
     [(''txid'', BString txid), (''outputIndex'', BNumber outputIndex), (''topic'', BString topic)]"

definition addedDocument :: "int \<Rightarrow> string \<Rightarrow> int \<Rightarrow> ByteString \<Rightarrow> string \<Rightarrow> document" where
  "addedDocument now txid outputIndex outputScript topic =
     [(''txid'', BString txid), (''outputIndex'', BNumber outputIndex),
      (''script'', BBytes outputScript), (''topic'', BString topic),
      (''status'', BString ''active''), (''createdAt'', BDate now)]"

definition outputAdded :: "int \<Rightarrow> string \<Rightarrow> int \<Rightarrow> ByteString \<Rightarrow> string \<Rightarrow> db \<Rightarrow> db" where
  "outputAdded now txid outputIndex outputScript topic D =
     (case insertOne (addedDocument now txid outputIndex outputScript topic) (bounties D) of
        Inl e \<Rightarrow> D
      | Inr docs \<Rightarrow> D\<lparr>bounties := docs\<rparr>)"

definition outputSpent :: "int \<Rightarrow> string \<Rightarrow> int \<Rightarrow> string \<Rightarrow> db \<Rightarrow> db" where
  "outputSpent now txid outputIndex topic D =
     D\<lparr>bounties :=
         updateOne (keyFilter txid outputIndex topic)
           [(''status'', BString ''completed''), (''completedAt'', BDate now)] (bounties D)\<rparr>"

definition outputDeleted :: "string \<Rightarrow> int \<Rightarrow> string \<Rightarrow> db \<Rightarrow> db" where
  "outputDeleted txid outputIndex topic D =
     D\<lparr>bounties := deleteOne (keyFilter txid outputIndex topic) (bounties D)\<rparr>"

text \<open>The status of the record with a given key, if there is one.\<close>

definition statusOf :: "string \<Rightarrow> int \<Rightarrow> string \<Rightarrow> db \<Rightarrow> bson option" where
  "statusOf txid outputIndex topic D =
     (case findOne (keyFilter txid outputIndex topic) (bounties D) of
        None \<Rightarrow> None
      | Some d \<Rightarrow> map_of d ''status'')"

text \<open>A \<^verbatim>\<open>$set\<close> that names none of the three fields of the unique index.\<close>

definition keepsKey :: "document \<Rightarrow> bool" where
  "keepsKey u = (''txid'' \<notin> fst ` set u \<and> ''outputIndex'' \<notin> fst ` set u \<and> ''topic'' \<notin> fst ` set u)"

text \<open>
  \<^verbatim>\<open>lookup\<close>. The query's four fields are read for truthiness: an absent or empty string adds
  no filter. The answer is either the empty output list (user not found) or a formula, the
  \<^verbatim>\<open>txid\<close> and \<^verbatim>\<open>outputIndex\<close> of each matching document in collection order.
\<close>

record LookupQuery =
  query_issueId :: "string option"
  query_repoOwner :: "string option"
  query_githubUsername :: "string option"
  query_status :: "string option"

datatype LookupResult =
  OutputList "ByteString list"
| Formula "(bson option \<times> bson option) list"

definition addFilter :: "string \<Rightarrow> string option \<Rightarrow> document \<Rightarrow> document" where
  "addFilter f v mongoQuery =
     (case v of
        None \<Rightarrow> mongoQuery
      | Some s \<Rightarrow> if s \<noteq> [] then mongoQuery @ [(f, BString s)] else mongoQuery)"

definition baseQuery :: "LookupQuery \<Rightarrow> document" where
  "baseQuery q =
     addFilter ''status'' (query_status q)
       (addFilter ''repoOwner'' (query_repoOwner q)
         (addFilter ''issueId'' (query_issueId q) [(''topic'', BString ''tm_bounty'')]))"

definition formulaOf :: "document list \<Rightarrow> LookupResult" where
  "formulaOf results = Formula (map (\<lambda>d. (map_of d ''txid'', map_of d ''outputIndex'')) results)"

definition lookup :: "LookupQuery \<Rightarrow> db \<Rightarrow> LookupResult" where
  "lookup q D =
     (let mongoQuery = baseQuery q in
      case query_githubUsername q of
        None \<Rightarrow> formulaOf (findAll mongoQuery (bounties D))
      | Some name \<Rightarrow>
          if name = [] then formulaOf (findAll mongoQuery (bounties D))
          else
            (case getGitHubIdentityByUsername D name of
               None \<Rightarrow> OutputList []
             | Some userIdentity \<Rightarrow>
                 formulaOf
                   (findAll (mongoQuery @ [(''identityKey'', BString (identityKey userIdentity))])
                      (bounties D))))"

text \<open>No document of the collection has a field \<^verbatim>\<open>identityKey\<close>.\<close>

definition noIdentityKey :: "document list \<Rightarrow> bool" where
  "noIdentityKey docs = list_all (\<lambda>d. map_of d ''identityKey'' = None) docs"

section \<open>BountyTopicManager\<close>





section \<open>BountyService\<close>

text \<open>
  The workflows call the wallet and scrypt-ts: restoring and binding the contract instance,
  signing, deploying, and calling a contract method (which builds the spending transaction,
  runs the contract on it and broadcasts it, and throws when the contract rejects it). These
  calls are outside the repository; each is a parameter that either fails or yields what
  the workflow reads from it.
\<close>

record Deployed =
  deployTxId :: string
  lockingScript :: ByteString
  funderKey :: string

record env =
  deploy :: "GitHubIdentity \<Rightarrow> string \<Rightarrow> int \<Rightarrow> int \<Rightarrow> error + Deployed"
  submitPaySolver ::
    "document \<Rightarrow> GitHubIdentity \<Rightarrow> GitHubIdentity \<Rightarrow> string \<Rightarrow> string \<Rightarrow> error + string"
  submitRefundExpired :: "document \<Rightarrow> error + string"
  submitCancelBounty :: "document \<Rightarrow> GitHubIdentity \<Rightarrow> error + string"

text \<open>
  What is thrown inside a workflow's \<^verbatim>\<open>try\<close> block. The \<^verbatim>\<open>catch\<close> block logs it and throws
  a new error with a fixed message, so the caller sees only that message.
\<close>

datatype failure =
  BountyNotFoundOrNotActive
| SolverNotRegistered
| RepoOwnerNotRegistered
| DeadlineNotPassed
| Thrown error

definition rethrow :: "string \<Rightarrow> (failure + 'a) \<times> db \<Rightarrow> (error + 'a) \<times> db" where
  "rethrow msg r = (case fst r of Inl f \<Rightarrow> (Inl (Error msg), snd r) | Inr v \<Rightarrow> (Inr v, snd r))"

definition txFilter :: "string \<Rightarrow> int \<Rightarrow> document" where
  "txFilter txid outputIndex = [(''txid'', BString txid), (''outputIndex'', BNumber outputIndex)]"

text \<open>
  \<^verbatim>\<open>getGitHubIdentityByUsername(bounty.repoOwner)\<close>: the field of a stored document. Every
  identity has a string user name, so a missing or non-string field finds none.
\<close>

definition identityOfField :: "db \<Rightarrow> bson option \<Rightarrow> GitHubIdentity option" where
  "identityOfField D v =
     (case v of Some (BString name) \<Rightarrow> getGitHubIdentityByUsername D name | _ \<Rightarrow> None)"

definition bountyDocument ::
  "int \<Rightarrow> Deployed \<Rightarrow> string \<Rightarrow> string \<Rightarrow> int \<Rightarrow> int \<Rightarrow> document" where
  "bountyDocument created dep issue owner amountSatoshis deadlineSeconds =
     [(''txid'', BString (deployTxId dep)), (''outputIndex'', BNumber 0),
      (''script'', BBytes (lockingScript dep)), (''topic'', BString ''tm_bounty''),
      (''issueId'', BString issue), (''repoOwner'', BString owner),
      (''funderIdentityKey'', BString (funderKey dep)), (''status'', BString ''active''),
      (''amount'', BNumber amountSatoshis), (''deadline'', BDate (deadlineSeconds * 1000)),
      (''createdAt'', BDate created)]"

text \<open>
  \<^verbatim>\<open>createBounty\<close>; \<open>now\<close> is \<^verbatim>\<open>Date.now()\<close> at the deadline computation and \<open>created\<close> the
  \<^verbatim>\<open>new Date()\<close> of the document.
\<close>

definition createBounty_try ::
  "env \<Rightarrow> int \<Rightarrow> int \<Rightarrow> string \<Rightarrow> string \<Rightarrow> string \<Rightarrow> int \<Rightarrow> int \<Rightarrow> db
     \<Rightarrow> (failure + string \<times> int) \<times> db" where
  "createBounty_try E now created issue owner repoOwnerGithubUsername amountSatoshis
       deadlineDays D =
     (case getGitHubIdentityByUsername D repoOwnerGithubUsername of
        None \<Rightarrow> (Inl RepoOwnerNotRegistered, D)
      | Some repoOwnerIdentity \<Rightarrow>
          (let deadlineSeconds = now div 1000 + deadlineDays * 24 * 60 * 60 in
           case deploy E repoOwnerIdentity issue deadlineSeconds amountSatoshis of
             Inl e \<Rightarrow> (Inl (Thrown e), D)
           | Inr dep \<Rightarrow>
               (case insertOne
                       (bountyDocument created dep issue owner amountSatoshis deadlineSeconds)
                       (bounties D) of
                  Inl e \<Rightarrow> (Inl (Thrown e), D)
                | Inr docs \<Rightarrow> (Inr (deployTxId dep, 0), D\<lparr>bounties := docs\<rparr>))))"

definition createBounty ::
  "env \<Rightarrow> int \<Rightarrow> int \<Rightarrow> string \<Rightarrow> string \<Rightarrow> string \<Rightarrow> int \<Rightarrow> int \<Rightarrow> db
     \<Rightarrow> (error + string \<times> int) \<times> db" where
  "createBounty E now created issue owner repoOwnerGithubUsername amountSatoshis deadlineDays D =
     rethrow ''Failed to create bounty''
       (createBounty_try E now created issue owner repoOwnerGithubUsername amountSatoshis
          deadlineDays D)"

text \<open>\<^verbatim>\<open>payBounty\<close>; \<open>now\<close> is the \<^verbatim>\<open>new Date()\<close> of \<^verbatim>\<open>completedAt\<close>.\<close>

definition payBounty_try ::
  "env \<Rightarrow> int \<Rightarrow> string \<Rightarrow> int \<Rightarrow> string \<Rightarrow> string \<Rightarrow> db \<Rightarrow> (failure + string) \<times> db" where
  "payBounty_try E now txid outputIndex solverGithubUsername solutionPullRequestId D =
     (case findOne (txFilter txid outputIndex) (bounties D) of
        None \<Rightarrow> (Inl BountyNotFoundOrNotActive, D)
      | Some bounty \<Rightarrow>
          if map_of bounty ''status'' \<noteq> Some (BString ''active'')
            then (Inl BountyNotFoundOrNotActive, D)
          else
            (case getGitHubIdentityByUsername D solverGithubUsername of
               None \<Rightarrow> (Inl SolverNotRegistered, D)
             | Some solverIdentity \<Rightarrow>
                 (case identityOfField D (map_of bounty ''repoOwner'') of
                    None \<Rightarrow> (Inl RepoOwnerNotRegistered, D)
                  | Some repoOwnerIdentity \<Rightarrow>
                      (case submitPaySolver E bounty solverIdentity repoOwnerIdentity
                              solverGithubUsername solutionPullRequestId of
                         Inl e \<Rightarrow> (Inl (Thrown e), D)
                       | Inr payTxId \<Rightarrow>
                           (Inr payTxId,
                            D\<lparr>bounties :=
                                updateOne (txFilter txid outputIndex)
                                  [(''status'', BString ''completed''),
                                   (''solverIdentityKey'', BString (identityKey solverIdentity)),
                                   (''solutionPullRequestId'', BString solutionPullRequestId),
                                   (''completedAt'', BDate now)]
                                  (bounties D)\<rparr>)))))"

definition payBounty ::
  "env \<Rightarrow> int \<Rightarrow> string \<Rightarrow> int \<Rightarrow> string \<Rightarrow> string \<Rightarrow> db \<Rightarrow> (error + string) \<times> db" where
  "payBounty E now txid outputIndex solverGithubUsername solutionPullRequestId D =
     rethrow ''Failed to pay bounty''
       (payBounty_try E now txid outputIndex solverGithubUsername solutionPullRequestId D)"

text \<open>
  \<^verbatim>\<open>refundExpiredBounty\<close>; \<open>checked\<close> is the \<^verbatim>\<open>new Date()\<close> compared with the deadline and
  \<open>now\<close> that of \<^verbatim>\<open>completedAt\<close>. \<^verbatim>\<open>createBounty\<close> stores the deadline as a date; a document
  without the field (as \<^verbatim>\<open>outputAdded\<close> writes it) makes the comparison false.
\<close>

definition deadlineNotPassed :: "int \<Rightarrow> document \<Rightarrow> bool" where
  "deadlineNotPassed checked bounty =
     (case map_of bounty ''deadline'' of
        Some (BDate d) \<Rightarrow> checked < d
      | Some (BNumber n) \<Rightarrow> checked < n
      | _ \<Rightarrow> False)"

definition refundExpiredBounty_try ::
  "env \<Rightarrow> int \<Rightarrow> int \<Rightarrow> string \<Rightarrow> int \<Rightarrow> db \<Rightarrow> (failure + string) \<times> db" where
  "refundExpiredBounty_try E checked now txid outputIndex D =
     (case findOne (txFilter txid outputIndex) (bounties D) of
        None \<Rightarrow> (Inl BountyNotFoundOrNotActive, D)
      | Some bounty \<Rightarrow>
          if map_of bounty ''status'' \<noteq> Some (BString ''active'')
            then (Inl BountyNotFoundOrNotActive, D)
          else if deadlineNotPassed checked bounty then (Inl DeadlineNotPassed, D)
          else
            (case submitRefundExpired E bounty of
               Inl e \<Rightarrow> (Inl (Thrown e), D)
             | Inr refundTxId \<Rightarrow>
                 (Inr refundTxId,
                  D\<lparr>bounties :=
                      updateOne (txFilter txid outputIndex)
                        [(''status'', BString ''expired''), (''completedAt'', BDate now)]
                        (bounties D)\<rparr>)))"

definition refundExpiredBounty ::
  "env \<Rightarrow> int \<Rightarrow> int \<Rightarrow> string \<Rightarrow> int \<Rightarrow> db \<Rightarrow> (error + string) \<times> db" where
  "refundExpiredBounty E checked now txid outputIndex D =
     rethrow ''Failed to refund expired bounty''
       (refundExpiredBounty_try E checked now txid outputIndex D)"

text \<open>\<^verbatim>\<open>BountyService.cancelBounty\<close> (the contract method has the plain name).\<close>

definition BountyService_cancelBounty_try ::
  "env \<Rightarrow> int \<Rightarrow> string \<Rightarrow> int \<Rightarrow> db \<Rightarrow> (failure + string) \<times> db" where
  "BountyService_cancelBounty_try E now txid outputIndex D =
     (case findOne (txFilter txid outputIndex) (bounties D) of
        None \<Rightarrow> (Inl BountyNotFoundOrNotActive, D)
      | Some bounty \<Rightarrow>
          if map_of bounty ''status'' \<noteq> Some (BString ''active'')
            then (Inl BountyNotFoundOrNotActive, D)
          else
            (case identityOfField D (map_of bounty ''repoOwner'') of
               None \<Rightarrow> (Inl RepoOwnerNotRegistered, D)
             | Some repoOwnerIdentity \<Rightarrow>
                 (case submitCancelBounty E bounty repoOwnerIdentity of
                    Inl e \<Rightarrow> (Inl (Thrown e), D)
                  | Inr cancelTxId \<Rightarrow>
                      (Inr cancelTxId,
                       D\<lparr>bounties :=
                           updateOne (txFilter txid outputIndex)
                             [(''status'', BString ''canceled''), (''completedAt'', BDate now)]
                             (bounties D)\<rparr>))))"

definition BountyService_cancelBounty ::
  "env \<Rightarrow> int \<Rightarrow> string \<Rightarrow> int \<Rightarrow> db \<Rightarrow> (error + string) \<times> db" where
  "BountyService_cancelBounty E now txid outputIndex D =
     rethrow ''Failed to cancel bounty'' (BountyService_cancelBounty_try E now txid outputIndex D)"

section \<open>Histories of the store\<close>

text \<open>
  Every operation of the repository that writes the database, as an event with its
  arguments; a history is a list of events applied to the empty database. A step keeps
  the database an operation leaves behind, whether it returned or threw.
\<close>

datatype event =
  OutputAdded int string int ByteString string
| OutputSpent int string int string
| OutputDeleted string int string
| StoreGitHubIdentity string string
| CreateBounty int int string string string int int
| PayBounty int string int string string
| RefundExpiredBounty int int string int
| CancelBounty int string int

fun step :: "env \<Rightarrow> db \<Rightarrow> event \<Rightarrow> db" where
  "step E D (OutputAdded now txid i s topic) = outputAdded now txid i s topic D"
| "step E D (OutputSpent now txid i topic) = outputSpent now txid i topic D"
| "step E D (OutputDeleted txid i topic) = outputDeleted txid i topic D"
| "step E D (StoreGitHubIdentity name key) =
     (case storeGitHubIdentity name key D of Inl e \<Rightarrow> D | Inr D' \<Rightarrow> D')"
| "step E D (CreateBounty now created issue owner name amount days) =
     snd (createBounty E now created issue owner name amount days D)"
| "step E D (PayBounty now txid i solver pr) = snd (payBounty E now txid i solver pr D)"
| "step E D (RefundExpiredBounty checked now txid i) =
     snd (refundExpiredBounty E checked now txid i D)"
| "step E D (CancelBounty now txid i) = snd (BountyService_cancelBounty E now txid i D)"

definition run :: "env \<Rightarrow> event list \<Rightarrow> db" where
  "run E evs = foldl (step E) emptyDb evs"

section \<open>Reading the wire format back\<close>

text \<open>
  The inverses of \<open>toLEUnsigned\<close>, \<open>writeVarint\<close> and \<open>serializeOutput\<close>. The contract does
  not call them; they show that a serialized output list determines the outputs.
\<close>

fun fromLEUnsigned :: "ByteString \<Rightarrow> nat" where
  "fromLEUnsigned [] = 0"
| "fromLEUnsigned (b # bs) = unat b + 256 * fromLEUnsigned bs"

definition readVarint :: "ByteString \<Rightarrow> (ByteString \<times> ByteString) option" where
  "readVarint bs =
     (case bs of
        [] \<Rightarrow> None
      | b # rest \<Rightarrow>
          (let l = (if b < 0xfd then 0 else if b = 0xfd then 2 else if b = 0xfe then 4 else 8);
               n = (if b < 0xfd then unat b else fromLEUnsigned (take l rest));
               body = drop l rest
           in Some (take n body, drop n body)))"

definition readOutput :: "ByteString \<Rightarrow> (TxOutput \<times> ByteString) option" where
  "readOutput bs =
     (case readVarint (drop 8 bs) of
        None \<Rightarrow> None
      | Some (s, rest) \<Rightarrow> Some (\<lparr>satoshis = fromLEUnsigned (take 8 bs), script = s\<rparr>, rest))"

section \<open>Concrete instances\<close>

text \<open>
  A toy instance of the cryptographic parameters, for evaluating the contract on concrete
  inputs: a signature verifies when it repeats the key, the hash is the identity (so it has
  no collision), and a key is its own address.
\<close>

definition toy_crypto :: crypto where
  "toy_crypto = \<lparr>checkSig = (\<lambda>s p. s = p), hash256 = (\<lambda>b. b), pubKey2Addr = (\<lambda>p. p)\<rparr>"

definition toy_funder :: PubKey where
  "toy_funder = [1, 2, 3, 4, 5, 6, 7, 8, 9, 10, 11, 12, 13, 14, 15, 16, 17, 18, 19, 20]"

definition toy_solver :: PubKey where
  "toy_solver = [21, 22, 23, 24, 25, 26, 27, 28, 29, 30, 31, 32, 33, 34, 35, 36, 37, 38, 39, 40]"

definition toy_contract :: BountyContract where
  "toy_contract =
     \<lparr>funderAddr = toy_funder, issueId = 42, repoOwner = [2], certifierPubKey = [3],
      deadline = 1700000000\<rparr>"

definition toy_pay_tx :: SpendingTx where
  "toy_pay_tx =
     \<lparr>outputs = [payout toy_solver 50000], inputIndex = 0, spentValue = 50000,
      nLocktime = 0, nSequence = 0\<rparr>"

definition toy_refund_tx :: SpendingTx where
  "toy_refund_tx =
     \<lparr>outputs = [payout toy_funder 50000], inputIndex = 0, spentValue = 50000,
      nLocktime = 1700000001, nSequence = 0\<rparr>"

definition toy_pay_tx_extra :: SpendingTx where
  "toy_pay_tx_extra =
     \<lparr>outputs = [payout toy_solver 50000, payout toy_funder 7], inputIndex = 0,
      spentValue = 50000, nLocktime = 0, nSequence = 0\<rparr>"

text \<open>
  A toy environment in which every external call succeeds, and a history that registers two
  users, creates a bounty for \<^verbatim>\<open>acme/widget#42\<close> and observes a second output.
\<close>

definition toy_env :: env where
  "toy_env =
     \<lparr>deploy = (\<lambda>owner issue deadlineSeconds amount.
         Inr \<lparr>deployTxId = ''tx1'', lockingScript = [0x14, 0x01], funderKey = ''key-funder''\<rparr>),
      submitPaySolver = (\<lambda>bounty solver owner name pr. Inr ''tx-pay''),
      submitRefundExpired = (\<lambda>bounty. Inr ''tx-refund''),
      submitCancelBounty = (\<lambda>bounty owner. Inr ''tx-cancel'')\<rparr>"

definition toy_history :: "event list" where
  "toy_history =
     [StoreGitHubIdentity ''acme'' ''key-acme'',
      StoreGitHubIdentity ''alice'' ''key-alice'',
      CreateBounty 1000 1000 ''acme/widget#42'' ''acme'' ''acme'' 50000 30,
      OutputAdded 2000 ''tx2'' 0 [0x76, 0xa9] ''tm_bounty'']"

text \<open>The toy environment with a contract call that fails.\<close>

definition rejecting_env :: env where
  "rejecting_env =
     toy_env\<lparr>submitCancelBounty := (\<lambda>bounty owner. Inl (Error ''transaction rejected''))\<rparr>"


section \<open>Properties of the contract\<close>

text \<open>
  C3. \<^verbatim>\<open>paySolver\<close> rejects the spending transaction as soon as one of the three signature
  checks fails: the solver's signature against the key the solver supplies, the owner's
  against \<^verbatim>\<open>repoOwner\<close>, or the certifier's against \<^verbatim>\<open>certifierPubKey\<close>, whatever the other two
  are. A missing signature is a signature that does not verify.
\<close>

theorem paySolver_needs_three_signatures:
  assumes "\<not> checkSig K solverSig solverPubKey \<or> \<not> checkSig K ownerSig (repoOwner c)
           \<or> \<not> checkSig K certifierSig (certifierPubKey c)"
  shows "\<exists>msg. paySolver K c ctx solverSig solverPubKey ownerSig certifierSig = Inl msg"
  using assms by (auto simp: paySolver_def)

theorem paySolver_needs_three_signatures_witness:
  "checkSig toy_crypto toy_solver toy_solver \<and> checkSig toy_crypto [2] (repoOwner toy_contract)
   \<and> \<not> checkSig toy_crypto [] (certifierPubKey toy_contract)
   \<and> (\<exists>msg. paySolver toy_crypto toy_contract
          \<lparr>utxo_value = 50000, hashOutputs = [], locktime = 0, sequence = 0\<rparr>
          toy_solver toy_solver [2] []
        = Inl msg)"
  using paySolver_needs_three_signatures
    [where K = toy_crypto and c = toy_contract and solverSig = toy_solver
       and solverPubKey = toy_solver and ownerSig = "[2]" and certifierSig = "[]"
       and ctx = "\<lparr>utxo_value = 50000, hashOutputs = [], locktime = 0, sequence = 0\<rparr>"]
  by (simp add: toy_crypto_def toy_contract_def)

text \<open>
  C2. The contract reads the time from the spending transaction: \<^verbatim>\<open>ctx.locktime\<close> is its
  \<^verbatim>\<open>nLocktime\<close>, which the ledger enforces, admitting the transaction only once chain time
  has reached it, when the input's sequence number is below \<^verbatim>\<open>0xffffffff\<close>. \<^verbatim>\<open>refundExpired\<close>
  rejects the spending transaction whenever chain time is below the deadline, whatever
  signature and key are supplied; and when it accepts, \<^verbatim>\<open>nLocktime\<close> is enforced and has
  reached the deadline, the supplied key hashes to \<^verbatim>\<open>funderAddr\<close>, and the funder's signature
  verifies against that key.
\<close>

theorem refundExpired_only_after_deadline_by_funder:
  "((sequence ctx < 0xffffffff \<longrightarrow> locktime ctx \<le> chainTime) \<and> chainTime < deadline c \<longrightarrow>
      (\<exists>msg. refundExpired K c ctx funderSig funderPubKey = Inl msg))
   \<and> (locktime ctx < deadline c \<longrightarrow>
      (\<exists>msg. refundExpired K c ctx funderSig funderPubKey = Inl msg))
   \<and> (refundExpired K c ctx' funderSig' funderPubKey' = Inr () \<longrightarrow>
        sequence ctx' < 0xffffffff \<and> deadline c \<le> locktime ctx'
        \<and> pubKey2Addr K funderPubKey' = funderAddr c
        \<and> checkSig K funderSig' funderPubKey')"
  by (auto simp: refundExpired_def timeLock_def Let_def split: if_splits)

theorem refundExpired_only_after_deadline_by_funder_witness:
  "locktime \<lparr>utxo_value = 50000, hashOutputs = buildPublicKeyHashOutput toy_funder 50000,
             locktime = 1699999999, sequence = 0\<rparr> \<le> 1699999999
   \<and> 1699999999 < deadline toy_contract
   \<and> (\<exists>msg. refundExpired toy_crypto toy_contract
          \<lparr>utxo_value = 50000, hashOutputs = buildPublicKeyHashOutput toy_funder 50000,
           locktime = 1699999999, sequence = 0\<rparr> toy_funder toy_funder = Inl msg)
   \<and> refundExpired toy_crypto toy_contract
        \<lparr>utxo_value = 50000, hashOutputs = buildPublicKeyHashOutput toy_funder 50000,
         locktime = 1700000001, sequence = 0\<rparr> toy_funder toy_funder = Inr ()
   \<and> deadline toy_contract \<le> 1700000001
   \<and> pubKey2Addr toy_crypto toy_funder = funderAddr toy_contract
   \<and> checkSig toy_crypto toy_funder toy_funder"
  using refundExpired_only_after_deadline_by_funder
    [where K = toy_crypto and c = toy_contract and chainTime = 1699999999
       and ctx = "\<lparr>utxo_value = 50000, hashOutputs = buildPublicKeyHashOutput toy_funder 50000,
                    locktime = 1699999999, sequence = 0\<rparr>"
       and funderSig = toy_funder and funderPubKey = toy_funder
       and ctx' = "\<lparr>utxo_value = 50000, hashOutputs = buildPublicKeyHashOutput toy_funder 50000,
                    locktime = 1700000001, sequence = 0\<rparr>"
       and funderSig' = toy_funder and funderPubKey' = toy_funder]
  by (simp add: toy_crypto_def toy_contract_def refundExpired_def timeLock_def)

subsection \<open>The wire format determines the outputs\<close>

lemma length_toLEUnsigned [simp]: "length (toLEUnsigned n l) = l"
  by (induction n l rule: toLEUnsigned.induct) simp_all

lemma unat_byte_of_nat: "unat (of_nat (n mod 256) :: byte) = n mod 256"
  by (simp add: unat_of_nat)

lemma fromLEUnsigned_toLEUnsigned:
  "n < 256 ^ l \<Longrightarrow> fromLEUnsigned (toLEUnsigned n l) = n"
proof (induction l arbitrary: n)
  case 0
  then show ?case by simp
next
  case (Suc l)
  have "n div 256 < 256 ^ l"
    using Suc.prems by (simp add: less_mult_imp_div_less mult.commute)
  then have "fromLEUnsigned (toLEUnsigned (n div 256) l) = n div 256"
    by (rule Suc.IH)
  then show ?case
    by (simp add: unat_byte_of_nat)
qed

lemma readVarint_writeVarint:
  assumes "length s < 2 ^ 64"
  shows "readVarint (writeVarint s @ r) = Some (s, r)"
proof -
  let ?n = "length s"
  consider (one) "?n < 0xfd" | (two) "0xfd \<le> ?n" "?n < 0x10000"
    | (four) "0x10000 \<le> ?n" "?n < 0x100000000" | (eight) "0x100000000 \<le> ?n"
    by linarith
  then show ?thesis
  proof cases
    case one
    then have u: "unat (of_nat ?n :: byte) = ?n"
      by (simp add: unat_of_nat)
    have lt: "(of_nat ?n :: byte) < 0xfd"
      using one u by (simp add: word_less_nat_alt)
    have w: "writeVarint s = of_nat ?n # s"
      using one by (simp add: writeVarint_def)
    show ?thesis
      using lt u by (simp add: w readVarint_def)
  next
    case two
    have w: "writeVarint s = 0xfd # toLEUnsigned ?n 2 @ s"
      using two by (simp add: writeVarint_def)
    have f: "fromLEUnsigned (toLEUnsigned ?n 2) = ?n"
      using two by (intro fromLEUnsigned_toLEUnsigned) simp
    show ?thesis
      using f by (simp add: w readVarint_def)
  next
    case four
    have w: "writeVarint s = 0xfe # toLEUnsigned ?n 4 @ s"
      using four by (simp add: writeVarint_def)
    have f: "fromLEUnsigned (toLEUnsigned ?n 4) = ?n"
      using four by (intro fromLEUnsigned_toLEUnsigned) simp
    show ?thesis
      using f by (simp add: w readVarint_def)
  next
    case eight
    have w: "writeVarint s = 0xff # toLEUnsigned ?n 8 @ s"
      using eight assms by (simp add: writeVarint_def)
    have f: "fromLEUnsigned (toLEUnsigned ?n 8) = ?n"
      using assms by (intro fromLEUnsigned_toLEUnsigned) simp
    show ?thesis
      using f by (simp add: w readVarint_def)
  qed
qed

lemma readOutput_serializeOutput:
  assumes "wellFormedOutput out"
  shows "readOutput (serializeOutput out @ r) = Some (out, r)"
proof -
  have v: "fromLEUnsigned (toLEUnsigned (satoshis out) 8) = satoshis out"
    using assms by (intro fromLEUnsigned_toLEUnsigned) (simp add: wellFormedOutput_def)
  have s: "readVarint (writeVarint (script out) @ r) = Some (script out, r)"
    using assms by (intro readVarint_writeVarint) (simp add: wellFormedOutput_def)
  show ?thesis
    by (simp add: readOutput_def serializeOutput_def buildOutput_def v s)
qed

lemma serializeOutput_nonempty: "serializeOutput out \<noteq> []"
proof
  assume "serializeOutput out = []"
  then have "length (serializeOutput out) = 0" by simp
  then show False by (simp add: serializeOutput_def buildOutput_def)
qed

lemma serialized_outputs_single:
  assumes eq: "concat (map serializeOutput outs) = serializeOutput p"
    and wf: "list_all wellFormedOutput outs" and wfp: "wellFormedOutput p"
  shows "outs = [p]"
proof (cases outs)
  case Nil
  with eq serializeOutput_nonempty [of p] show ?thesis by simp
next
  case (Cons x rest)
  let ?R = "concat (map serializeOutput rest)"
  have wx: "wellFormedOutput x" using wf Cons by simp
  have "readOutput (serializeOutput x @ ?R) = readOutput (serializeOutput p @ [])"
    using eq Cons by simp
  then have "Some (x, ?R) = Some (p, [])"
    by (simp only: readOutput_serializeOutput [OF wx] readOutput_serializeOutput [OF wfp])
  then have xp: "x = p" and R: "?R = []" by simp_all
  have "rest = []"
  proof (cases rest)
    case Nil
    then show ?thesis .
  next
    case (Cons y ys)
    with R serializeOutput_nonempty [of y] show ?thesis by simp
  qed
  with xp Cons show ?thesis by simp
qed

lemma serializeOutput_payout:
  "serializeOutput (payout addr amount) = buildPublicKeyHashOutput addr amount"
  by (simp add: serializeOutput_def payout_def buildPublicKeyHashOutput_def)

lemma wellFormedOutput_payout:
  "length addr = 20 \<Longrightarrow> amount < 2 ^ 64 \<Longrightarrow> wellFormedOutput (payout addr amount)"
  by (simp add: wellFormedOutput_def payout_def buildPublicKeyHashScript_def)

subsection \<open>What each transition commits to\<close>

lemma paySolver_hashOutputs:
  "paySolver K c ctx solverSig solverPubKey ownerSig certifierSig = Inr () \<Longrightarrow>
     hash256 K (buildPublicKeyHashOutput (pubKey2Addr K solverPubKey) (utxo_value ctx))
       = hashOutputs ctx"
  by (simp add: paySolver_def Let_def split: if_splits)

lemma refundExpired_hashOutputs:
  "refundExpired K c ctx funderSig funderPubKey = Inr () \<Longrightarrow>
     hash256 K (buildPublicKeyHashOutput (funderAddr c) (utxo_value ctx)) = hashOutputs ctx"
  by (simp add: refundExpired_def Let_def split: if_splits)

lemma cancelBounty_hashOutputs:
  "cancelBounty K c ctx funderSig funderPubKey ownerSig = Inr () \<Longrightarrow>
     hash256 K (buildPublicKeyHashOutput (funderAddr c) (utxo_value ctx)) = hashOutputs ctx"
  by (simp add: cancelBounty_def Let_def split: if_splits)

lemma all_outputs_committed:
  assumes h: "hash256 K (buildPublicKeyHashOutput addr (spentValue tx))
                = hashOutputs (scriptContext K SigHash_ALL tx)"
    and wf: "list_all wellFormedOutput (outputs tx)"
    and len: "length addr = 20" and v: "spentValue tx < 2 ^ 64"
  shows "outputs tx = [payout addr (spentValue tx)]
         \<or> collision K (buildPublicKeyHashOutput addr (spentValue tx))
              (concat (map serializeOutput (outputs tx)))"
proof (cases "concat (map serializeOutput (outputs tx))
                = buildPublicKeyHashOutput addr (spentValue tx)")
  case True
  then have "concat (map serializeOutput (outputs tx))
               = serializeOutput (payout addr (spentValue tx))"
    by (simp add: serializeOutput_payout)
  then have "outputs tx = [payout addr (spentValue tx)]"
    using wf wellFormedOutput_payout [OF len v] by (rule serialized_outputs_single)
  then show ?thesis ..
next
  case False
  moreover have "hash256 K (buildPublicKeyHashOutput addr (spentValue tx))
          = hash256 K (concat (map serializeOutput (outputs tx)))"
    using h by (simp add: scriptContext_def hashOutputsOf_def)
  ultimately show ?thesis
    by (auto simp: collision_def)
qed

lemma single_output_committed:
  assumes h: "hash256 K (buildPublicKeyHashOutput addr (spentValue tx))
                = hashOutputs (scriptContext K SigHash_ANYONECANPAY_SINGLE tx)"
    and idx: "inputIndex tx < length (outputs tx)"
    and wf: "list_all wellFormedOutput (outputs tx)"
    and len: "length addr = 20" and v: "spentValue tx < 2 ^ 64"
  shows "outputs tx ! inputIndex tx = payout addr (spentValue tx)
         \<or> collision K (buildPublicKeyHashOutput addr (spentValue tx))
              (serializeOutput (outputs tx ! inputIndex tx))"
proof (cases "serializeOutput (outputs tx ! inputIndex tx)
                = buildPublicKeyHashOutput addr (spentValue tx)")
  case True
  let ?o = "outputs tx ! inputIndex tx"
  have "concat (map serializeOutput [?o]) = serializeOutput (payout addr (spentValue tx))"
    using True by (simp add: serializeOutput_payout)
  moreover have "list_all wellFormedOutput [?o]"
    using wf idx by (simp add: list_all_length)
  ultimately have "[?o] = [payout addr (spentValue tx)]"
    using wellFormedOutput_payout [OF len v] by (rule serialized_outputs_single)
  then show ?thesis by simp
next
  case False
  moreover have "hash256 K (buildPublicKeyHashOutput addr (spentValue tx))
          = hash256 K (serializeOutput (outputs tx ! inputIndex tx))"
    using h idx by (simp add: scriptContext_def hashOutputsOf_def)
  ultimately show ?thesis
    by (auto simp: collision_def)
qed

text \<open>
  C4, as the code has it. Each of \<^verbatim>\<open>paySolver\<close>, \<^verbatim>\<open>refundExpired\<close> and \<^verbatim>\<open>cancelBounty\<close>
  asserts that the hash of the single required payout output (the full locked value to the
  address of the solver's key, or to \<^verbatim>\<open>funderAddr\<close>) equals \<^verbatim>\<open>ctx.hashOutputs\<close>.
  \<^verbatim>\<open>refundExpired\<close> and \<^verbatim>\<open>cancelBounty\<close> run under \<^verbatim>\<open>SigHash.ALL\<close>, where \<^verbatim>\<open>ctx.hashOutputs\<close>
  covers every output: they accept only a spending transaction whose output list is exactly
  the one payout (or one that exhibits a collision of \<^verbatim>\<open>hash256\<close>). \<^verbatim>\<open>paySolver\<close> is declared
  with \<^verbatim>\<open>SigHash.ANYONECANPAY_SINGLE\<close>, where \<^verbatim>\<open>ctx.hashOutputs\<close> covers only the output at the
  spending input's own index: it accepts only if that output is the payout to the solver
  (or collides with it), and says nothing of the outputs at other indices.
\<close>

theorem transitions_commit_to_payout:
  "(spend_paySolver K c txp solverSig solverPubKey ownerSig certifierSig = Inr () \<longrightarrow>
      hash256 K (buildPublicKeyHashOutput (pubKey2Addr K solverPubKey) (spentValue txp))
        = hashOutputsOf K SigHash_ANYONECANPAY_SINGLE txp
      \<and> (inputIndex txp < length (outputs txp) \<and> list_all wellFormedOutput (outputs txp)
           \<and> length (pubKey2Addr K solverPubKey) = 20 \<and> spentValue txp < 2 ^ 64 \<longrightarrow>
         outputs txp ! inputIndex txp = payout (pubKey2Addr K solverPubKey) (spentValue txp)
         \<or> collision K
              (buildPublicKeyHashOutput (pubKey2Addr K solverPubKey) (spentValue txp))
              (serializeOutput (outputs txp ! inputIndex txp))))
   \<and> (spend_refundExpired K c txr funderSig funderPubKey = Inr () \<longrightarrow>
      hash256 K (buildPublicKeyHashOutput (funderAddr c) (spentValue txr))
        = hashOutputsOf K SigHash_ALL txr
      \<and> (list_all wellFormedOutput (outputs txr)
           \<and> length (funderAddr c) = 20 \<and> spentValue txr < 2 ^ 64 \<longrightarrow>
         outputs txr = [payout (funderAddr c) (spentValue txr)]
         \<or> collision K (buildPublicKeyHashOutput (funderAddr c) (spentValue txr))
              (concat (map serializeOutput (outputs txr)))))
   \<and> (spend_cancelBounty K c txc funderSig' funderPubKey' ownerSig' = Inr () \<longrightarrow>
      hash256 K (buildPublicKeyHashOutput (funderAddr c) (spentValue txc))
        = hashOutputsOf K SigHash_ALL txc
      \<and> (list_all wellFormedOutput (outputs txc)
           \<and> length (funderAddr c) = 20 \<and> spentValue txc < 2 ^ 64 \<longrightarrow>
         outputs txc = [payout (funderAddr c) (spentValue txc)]
         \<or> collision K (buildPublicKeyHashOutput (funderAddr c) (spentValue txc))
              (concat (map serializeOutput (outputs txc)))))"
proof (intro conjI impI)
  assume a: "spend_paySolver K c txp solverSig solverPubKey ownerSig certifierSig = Inr ()"
  have h: "hash256 K (buildPublicKeyHashOutput (pubKey2Addr K solverPubKey) (spentValue txp))
        = hashOutputs (scriptContext K SigHash_ANYONECANPAY_SINGLE txp)"
    using paySolver_hashOutputs [OF a [unfolded spend_paySolver_def]]
    by (simp add: scriptContext_def)
  then show "hash256 K (buildPublicKeyHashOutput (pubKey2Addr K solverPubKey) (spentValue txp))
        = hashOutputsOf K SigHash_ANYONECANPAY_SINGLE txp"
    by (simp add: scriptContext_def)
  assume wf: "inputIndex txp < length (outputs txp) \<and> list_all wellFormedOutput (outputs txp)
           \<and> length (pubKey2Addr K solverPubKey) = 20 \<and> spentValue txp < 2 ^ 64"
  show "outputs txp ! inputIndex txp
                 = payout (pubKey2Addr K solverPubKey) (spentValue txp)
         \<or> collision K
              (buildPublicKeyHashOutput (pubKey2Addr K solverPubKey) (spentValue txp))
              (serializeOutput (outputs txp ! inputIndex txp))"
    using single_output_committed [OF h] wf by blast
next
  assume a: "spend_refundExpired K c txr funderSig funderPubKey = Inr ()"
  have h: "hash256 K (buildPublicKeyHashOutput (funderAddr c) (spentValue txr))
        = hashOutputs (scriptContext K SigHash_ALL txr)"
    using refundExpired_hashOutputs [OF a [unfolded spend_refundExpired_def]]
    by (simp add: scriptContext_def)
  then show "hash256 K (buildPublicKeyHashOutput (funderAddr c) (spentValue txr))
        = hashOutputsOf K SigHash_ALL txr"
    by (simp add: scriptContext_def)
  assume wf: "list_all wellFormedOutput (outputs txr)
           \<and> length (funderAddr c) = 20 \<and> spentValue txr < 2 ^ 64"
  show "outputs txr = [payout (funderAddr c) (spentValue txr)]
         \<or> collision K (buildPublicKeyHashOutput (funderAddr c) (spentValue txr))
              (concat (map serializeOutput (outputs txr)))"
    using all_outputs_committed [OF h] wf by blast
next
  assume a: "spend_cancelBounty K c txc funderSig' funderPubKey' ownerSig' = Inr ()"
  have h: "hash256 K (buildPublicKeyHashOutput (funderAddr c) (spentValue txc))
        = hashOutputs (scriptContext K SigHash_ALL txc)"
    using cancelBounty_hashOutputs [OF a [unfolded spend_cancelBounty_def]]
    by (simp add: scriptContext_def)
  then show "hash256 K (buildPublicKeyHashOutput (funderAddr c) (spentValue txc))
        = hashOutputsOf K SigHash_ALL txc"
    by (simp add: scriptContext_def)
  assume wf: "list_all wellFormedOutput (outputs txc)
           \<and> length (funderAddr c) = 20 \<and> spentValue txc < 2 ^ 64"
  show "outputs txc = [payout (funderAddr c) (spentValue txc)]
         \<or> collision K (buildPublicKeyHashOutput (funderAddr c) (spentValue txc))
              (concat (map serializeOutput (outputs txc)))"
    using all_outputs_committed [OF h] wf by blast
qed

theorem transitions_commit_to_payout_witness:
  "spend_paySolver toy_crypto toy_contract toy_pay_tx toy_solver toy_solver [2] [3] = Inr ()
   \<and> outputs toy_pay_tx ! inputIndex toy_pay_tx = payout toy_solver 50000
   \<and> spend_refundExpired toy_crypto toy_contract toy_refund_tx toy_funder toy_funder = Inr ()
   \<and> outputs toy_refund_tx = [payout toy_funder 50000]
   \<and> \<not> collision toy_crypto (buildPublicKeyHashOutput toy_funder 50000)
         (concat (map serializeOutput (outputs toy_refund_tx)))
   \<and> spend_cancelBounty toy_crypto toy_contract toy_refund_tx toy_funder toy_funder [2] = Inr ()"
  using transitions_commit_to_payout
    [where K = toy_crypto and c = toy_contract and txp = toy_pay_tx and solverSig = toy_solver
       and solverPubKey = toy_solver and ownerSig = "[2]" and certifierSig = "[3]"
       and txr = toy_refund_tx and funderSig = toy_funder and funderPubKey = toy_funder
       and txc = toy_refund_tx and funderSig' = toy_funder and funderPubKey' = toy_funder
       and ownerSig' = "[2]"]
  by (simp add: spend_paySolver_def spend_refundExpired_def spend_cancelBounty_def
      paySolver_def refundExpired_def cancelBounty_def timeLock_def
      scriptContext_def hashOutputsOf_def serializeOutput_payout collision_def
      toy_crypto_def toy_contract_def toy_pay_tx_def toy_refund_tx_def)

text \<open>
  \<^verbatim>\<open>paySolver\<close> accepts a spending transaction that carries a second output beside the
  payout to the solver, with all three signature checks passing.
\<close>

theorem extra_output_counterexample:
  "spend_paySolver toy_crypto toy_contract toy_pay_tx_extra toy_solver toy_solver [2] [3] = Inr ()
   \<and> checkSig toy_crypto toy_solver toy_solver
   \<and> checkSig toy_crypto [2] (repoOwner toy_contract)
   \<and> checkSig toy_crypto [3] (certifierPubKey toy_contract)
   \<and> outputs toy_pay_tx_extra
       = [payout (pubKey2Addr toy_crypto toy_solver) (spentValue toy_pay_tx_extra),
          payout toy_funder 7]
   \<and> outputs toy_pay_tx_extra
       \<noteq> [payout (pubKey2Addr toy_crypto toy_solver) (spentValue toy_pay_tx_extra)]"
  by (simp add: spend_paySolver_def paySolver_def scriptContext_def hashOutputsOf_def
      serializeOutput_payout toy_crypto_def toy_contract_def toy_pay_tx_extra_def)

section \<open>Properties of the lifecycle index\<close>

lemma matches_keyFilter:
  "matches (keyFilter txid i topic) d
     \<longleftrightarrow> indexKey d = (Some (BString txid), Some (BNumber i), Some (BString topic))"
  by (simp add: matches_def keyFilter_def indexKey_def)

lemma indexKey_addedDocument:
  "indexKey (addedDocument now txid i s topic)
     = (Some (BString txid), Some (BNumber i), Some (BString topic))"
  by (simp add: indexKey_def addedDocument_def)

lemma key_taken_after_outputAdded:
  "(Some (BString txid), Some (BNumber i), Some (BString topic))
     \<in> set (map indexKey (bounties (outputAdded now txid i s topic D)))"
  by (simp add: outputAdded_def insertOne_def indexKey_addedDocument)

text \<open>
  C6. A second \<^verbatim>\<open>outputAdded\<close> with the same \<^verbatim>\<open>(txid, outputIndex, topic)\<close> is a no-op and not
  an error: the insert raises the duplicate-key error of the unique index, the handler
  catches it, and the database (the number of records and every field of each) is as the
  first call left it, whatever script and time the second call carries.
\<close>

theorem outputAdded_idempotent:
  "outputAdded t2 txid i s2 topic (outputAdded t1 txid i s1 topic D)
     = outputAdded t1 txid i s1 topic D
   \<and> insertOne (addedDocument t2 txid i s2 topic) (bounties (outputAdded t1 txid i s1 topic D))
     = Inl DuplicateKey
   \<and> length (bounties (outputAdded t2 txid i s2 topic (outputAdded t1 txid i s1 topic D)))
     = length (bounties (outputAdded t1 txid i s1 topic D))"
proof -
  let ?D1 = "outputAdded t1 txid i s1 topic D"
  have dup: "insertOne (addedDocument t2 txid i s2 topic) (bounties ?D1) = Inl DuplicateKey"
    using key_taken_after_outputAdded [of txid i topic t1 s1 D]
    by (simp add: insertOne_def indexKey_addedDocument)
  then have "outputAdded t2 txid i s2 topic ?D1 = ?D1"
    by (simp add: outputAdded_def [of t2])
  with dup show ?thesis by simp
qed

lemma map_of_setFields:
  "k \<notin> fst ` set u \<Longrightarrow> map_of (setFields u d) k = map_of d k"
  unfolding setFields_def
  by (induction u arbitrary: d) (auto simp: update_conv')

lemma indexKey_setFields:
  "''txid'' \<notin> fst ` set u \<Longrightarrow> ''outputIndex'' \<notin> fst ` set u \<Longrightarrow> ''topic'' \<notin> fst ` set u
     \<Longrightarrow> indexKey (setFields u d) = indexKey d"
  by (simp add: indexKey_def map_of_setFields)

lemma map_indexKey_updateOne:
  "keepsKey u \<Longrightarrow> map indexKey (updateOne q u docs) = map indexKey docs"
  by (induction docs) (simp_all add: keepsKey_def indexKey_setFields)

lemma filter_rest_updateOne:
  "keepsKey u \<Longrightarrow>
     filter (\<lambda>d. \<not> matches (keyFilter t i tp) d) (updateOne (keyFilter t i tp) u docs)
       = filter (\<lambda>d. \<not> matches (keyFilter t i tp) d) docs"
  by (induction docs) (simp_all add: keepsKey_def matches_keyFilter indexKey_setFields)

lemma deleteOne_unique:
  "distinct (map indexKey docs) \<Longrightarrow>
     deleteOne (keyFilter t i tp) docs = filter (\<lambda>d. \<not> matches (keyFilter t i tp) d) docs"
proof (induction docs)
  case Nil
  then show ?case by simp
next
  case (Cons d ds)
  show ?case
  proof (cases "matches (keyFilter t i tp) d")
    case True
    then have k: "indexKey d = (Some (BString t), Some (BNumber i), Some (BString tp))"
      by (simp add: matches_keyFilter)
    have "\<forall>x \<in> set ds. \<not> matches (keyFilter t i tp) x"
      using Cons.prems k by (force simp: matches_keyFilter image_iff)
    then have "filter (\<lambda>d. \<not> matches (keyFilter t i tp) d) ds = ds"
      by (simp add: filter_id_conv)
    with True show ?thesis by simp
  next
    case False
    with Cons show ?thesis by simp
  qed
qed

lemma uniqueKeys_outputAdded:
  "uniqueKeys (bounties D) \<Longrightarrow> uniqueKeys (bounties (outputAdded now txid i s topic D))"
  by (simp add: outputAdded_def insertOne_def uniqueKeys_def)

lemma keepsKey_spent:
  "keepsKey [(''status'', BString ''completed''), (''completedAt'', BDate now)]"
  by (simp add: keepsKey_def)

lemma uniqueKeys_outputSpent:
  "uniqueKeys (bounties D) \<Longrightarrow> uniqueKeys (bounties (outputSpent now txid i topic D))"
  by (simp add: outputSpent_def uniqueKeys_def map_indexKey_updateOne keepsKey_spent)

lemma findOne_filtered:
  "findOne q (filter (\<lambda>d. \<not> matches q d) docs) = None"
  by (simp add: findOne_def find_None_iff)

lemma rest_outputAdded:
  "filter (\<lambda>d. \<not> matches (keyFilter txid i topic) d) (bounties (outputAdded now txid i s topic D))
     = filter (\<lambda>d. \<not> matches (keyFilter txid i topic) d) (bounties D)"
  by (simp add: outputAdded_def insertOne_def matches_keyFilter indexKey_addedDocument)

text \<open>
  C7. On a collection whose keys are unique (as the unique index keeps them),
  \<^verbatim>\<open>outputDeleted\<close> removes the record with the given \<^verbatim>\<open>(txid, outputIndex, topic)\<close> and
  nothing else, without looking at its status; in particular after \<^verbatim>\<open>outputAdded\<close> followed
  by \<^verbatim>\<open>outputSpent\<close> no record with that key is left.
\<close>

theorem outputDeleted_unconditional:
  assumes "uniqueKeys (bounties D)"
  shows "bounties (outputDeleted txid i topic D)
           = filter (\<lambda>d. \<not> matches (keyFilter txid i topic) d) (bounties D)
         \<and> findOne (keyFilter txid i topic) (bounties (outputDeleted txid i topic D)) = None
         \<and> bounties (outputDeleted txid i topic
              (outputSpent t2 txid i topic (outputAdded t1 txid i s topic D)))
           = filter (\<lambda>d. \<not> matches (keyFilter txid i topic) d) (bounties D)
         \<and> findOne (keyFilter txid i topic)
             (bounties (outputDeleted txid i topic
                (outputSpent t2 txid i topic (outputAdded t1 txid i s topic D)))) = None"
proof -
  let ?q = "keyFilter txid i topic"
  let ?rest = "filter (\<lambda>d. \<not> matches ?q d)"
  have del: "bounties (outputDeleted txid i topic D') = ?rest (bounties D')"
    if "uniqueKeys (bounties D')" for D'
    using that by (simp add: outputDeleted_def uniqueKeys_def deleteOne_unique)
  let ?D2 = "outputSpent t2 txid i topic (outputAdded t1 txid i s topic D)"
  have u2: "uniqueKeys (bounties ?D2)"
    using assms by (intro uniqueKeys_outputSpent uniqueKeys_outputAdded)
  have "?rest (bounties ?D2) = ?rest (bounties (outputAdded t1 txid i s topic D))"
    by (simp add: outputSpent_def filter_rest_updateOne keepsKey_spent)
  also have "\<dots> = ?rest (bounties D)"
    by (rule rest_outputAdded)
  finally have r2: "bounties (outputDeleted txid i topic ?D2) = ?rest (bounties D)"
    using del [OF u2] by simp
  show ?thesis
    using del [OF assms] r2 by (simp add: findOne_filtered)
qed

theorem outputDeleted_unconditional_witness:
  "uniqueKeys (bounties (run toy_env toy_history))
   \<and> statusOf ''tx1'' 0 ''tm_bounty'' (run toy_env toy_history) = Some (BString ''active'')
   \<and> findOne (keyFilter ''tx1'' 0 ''tm_bounty'')
         (bounties (outputDeleted ''tx1'' 0 ''tm_bounty'' (run toy_env toy_history))) = None
   \<and> findOne (keyFilter ''tx1'' 0 ''tm_bounty'')
         (bounties (outputDeleted ''tx1'' 0 ''tm_bounty''
            (outputSpent 4000 ''tx1'' 0 ''tm_bounty''
               (outputAdded 3000 ''tx1'' 0 [0x76] ''tm_bounty'' (run toy_env toy_history)))))
       = None"
proof -
  have u: "uniqueKeys (bounties (run toy_env toy_history))"
    by code_simp
  have s: "statusOf ''tx1'' 0 ''tm_bounty'' (run toy_env toy_history) = Some (BString ''active'')"
    by code_simp
  show ?thesis
    using u s
      outputDeleted_unconditional
        [OF u, where txid = "''tx1''" and i = 0 and topic = "''tm_bounty''" and ?t1.0 = 3000
           and ?t2.0 = 4000 and s = "[0x76]"]
    by blast
qed

section \<open>Properties of the query resolver\<close>

lemma baseQuery_githubUsername [simp]:
  "baseQuery (q\<lparr>query_githubUsername := v\<rparr>) = baseQuery q"
  by (simp add: baseQuery_def)

lemma matches_snoc:
  "matches (q @ [(f, v)]) = (\<lambda>d. matches q d \<and> map_of d f = Some v)"
  by (rule ext) (simp add: matches_def)

text \<open>
  C8. A lookup whose filter names a GitHub user unknown to the identity store returns the
  empty output list (a value, not an error). A known user name is first resolved through
  the identity store, and the answer lists the records that match the other filters and
  whose \<^verbatim>\<open>identityKey\<close> field is that user's identity key.
\<close>

theorem lookup_by_githubUsername:
  assumes "query_githubUsername q = Some name" and "name \<noteq> []"
  shows "(getGitHubIdentityByUsername D name = None \<longrightarrow> lookup q D = OutputList [])
    \<and> (getGitHubIdentityByUsername D name = Some userIdentity \<longrightarrow>
         lookup q D =
           Formula (map (\<lambda>d. (map_of d ''txid'', map_of d ''outputIndex''))
             (filter (\<lambda>d. matches (baseQuery q) d
                      \<and> map_of d ''identityKey'' = Some (BString (identityKey userIdentity)))
                (bounties D))))"
  using assms
  by (simp add: lookup_def formulaOf_def findAll_def matches_snoc)

theorem lookup_by_githubUsername_witness:
  "getGitHubIdentityByUsername (run toy_env toy_history) ''bob'' = None
   \<and> lookup \<lparr>query_issueId = None, query_repoOwner = None, query_githubUsername = Some ''bob'',
             query_status = Some ''active''\<rparr> (run toy_env toy_history) = OutputList []
   \<and> getGitHubIdentityByUsername (run toy_env toy_history) ''alice''
       = Some \<lparr>username = ''alice'', identityKey = ''key-alice''\<rparr>
   \<and> lookup \<lparr>query_issueId = None, query_repoOwner = None, query_githubUsername = Some ''alice'',
             query_status = Some ''active''\<rparr>
        (run toy_env toy_history
           \<lparr>bounties := [[(''txid'', BString ''tx9''), (''outputIndex'', BNumber 1),
                          (''topic'', BString ''tm_bounty''), (''status'', BString ''active''),
                          (''identityKey'', BString ''key-alice'')]]\<rparr>)
       = Formula [(Some (BString ''tx9''), Some (BNumber 1))]"
proof -
  let ?D = "run toy_env toy_history"
  let ?D' = "?D\<lparr>bounties := [[(''txid'', BString ''tx9''), (''outputIndex'', BNumber 1),
                          (''topic'', BString ''tm_bounty''), (''status'', BString ''active''),
                          (''identityKey'', BString ''key-alice'')]]\<rparr>"
  have b: "getGitHubIdentityByUsername ?D ''bob'' = None"
    by code_simp
  have a: "getGitHubIdentityByUsername ?D' ''alice''
             = Some \<lparr>username = ''alice'', identityKey = ''key-alice''\<rparr>"
    by code_simp
  have a': "getGitHubIdentityByUsername ?D ''alice''
             = Some \<lparr>username = ''alice'', identityKey = ''key-alice''\<rparr>"
    by code_simp
  have f: "Formula (map (\<lambda>d. (map_of d ''txid'', map_of d ''outputIndex''))
             (filter (\<lambda>d. matches (baseQuery \<lparr>query_issueId = None, query_repoOwner = None,
                  query_githubUsername = Some ''alice'', query_status = Some ''active''\<rparr>) d
                      \<and> map_of d ''identityKey'' = Some (BString (identityKey \<lparr>username = ''alice'', identityKey = ''key-alice''\<rparr>)))
                (bounties ?D'))) = Formula [(Some (BString ''tx9''), Some (BNumber 1))]"
    by code_simp
  have 1: "lookup \<lparr>query_issueId = None, query_repoOwner = None,
             query_githubUsername = Some ''bob'', query_status = Some ''active''\<rparr> ?D = OutputList []"
    using lookup_by_githubUsername
      [where q = "\<lparr>query_issueId = None, query_repoOwner = None,
             query_githubUsername = Some ''bob'', query_status = Some ''active''\<rparr>"
         and name = "''bob''" and D = ?D] b
    by simp
  have 2: "lookup \<lparr>query_issueId = None, query_repoOwner = None,
             query_githubUsername = Some ''alice'', query_status = Some ''active''\<rparr> ?D'
           = Formula [(Some (BString ''tx9''), Some (BNumber 1))]"
    using lookup_by_githubUsername
      [where q = "\<lparr>query_issueId = None, query_repoOwner = None,
             query_githubUsername = Some ''alice'', query_status = Some ''active''\<rparr>"
         and name = "''alice''" and D = ?D'
         and userIdentity = "\<lparr>username = ''alice'', identityKey = ''key-alice''\<rparr>"] a f
    by simp
  show ?thesis
    using b a' 1 2 by blast
qed

subsection \<open>No record carries an identity key\<close>

lemma noIdentityKey_updateOne:
  "''identityKey'' \<notin> fst ` set u \<Longrightarrow> noIdentityKey docs \<Longrightarrow> noIdentityKey (updateOne q u docs)"
  by (induction docs) (simp_all add: noIdentityKey_def map_of_setFields)

lemma noIdentityKey_deleteOne:
  "noIdentityKey docs \<Longrightarrow> noIdentityKey (deleteOne q docs)"
  by (induction docs) (simp_all add: noIdentityKey_def)

lemma noIdentityKey_insertOne:
  "map_of d ''identityKey'' = None \<Longrightarrow> noIdentityKey docs \<Longrightarrow> insertOne d docs = Inr docs'
     \<Longrightarrow> noIdentityKey docs'"
  by (auto simp: insertOne_def noIdentityKey_def split: if_splits)

lemma noIdentityKey_outputAdded:
  "noIdentityKey (bounties D) \<Longrightarrow> noIdentityKey (bounties (outputAdded now txid i s topic D))"
  by (auto simp: outputAdded_def addedDocument_def split: sum.splits
      intro: noIdentityKey_insertOne [rotated])

lemma noIdentityKey_outputSpent:
  "noIdentityKey (bounties D) \<Longrightarrow> noIdentityKey (bounties (outputSpent now txid i topic D))"
  by (simp add: outputSpent_def noIdentityKey_updateOne)

lemma noIdentityKey_outputDeleted:
  "noIdentityKey (bounties D) \<Longrightarrow> noIdentityKey (bounties (outputDeleted txid i topic D))"
  by (simp add: outputDeleted_def noIdentityKey_deleteOne)

lemma noIdentityKey_createBounty:
  "noIdentityKey (bounties D) \<Longrightarrow>
     noIdentityKey (bounties (snd (createBounty E now created issue owner name amount days D)))"
  by (auto simp: createBounty_def createBounty_try_def rethrow_def Let_def bountyDocument_def
      split: option.splits sum.splits intro: noIdentityKey_insertOne [rotated])

lemma noIdentityKey_payBounty:
  "noIdentityKey (bounties D) \<Longrightarrow>
     noIdentityKey (bounties (snd (payBounty E now txid i solver pr D)))"
  by (simp add: payBounty_def payBounty_try_def rethrow_def noIdentityKey_updateOne
      split: option.splits sum.splits)

lemma noIdentityKey_refundExpiredBounty:
  "noIdentityKey (bounties D) \<Longrightarrow>
     noIdentityKey (bounties (snd (refundExpiredBounty E checked now txid i D)))"
  by (simp add: refundExpiredBounty_def refundExpiredBounty_try_def rethrow_def
      noIdentityKey_updateOne split: option.splits sum.splits)

lemma noIdentityKey_cancelBounty:
  "noIdentityKey (bounties D) \<Longrightarrow>
     noIdentityKey (bounties (snd (BountyService_cancelBounty E now txid i D)))"
  by (simp add: BountyService_cancelBounty_def BountyService_cancelBounty_try_def rethrow_def
      noIdentityKey_updateOne split: option.splits sum.splits)

lemma noIdentityKey_step:
  "noIdentityKey (bounties D) \<Longrightarrow> noIdentityKey (bounties (step E D ev))"
  by (cases ev)
    (simp_all add: noIdentityKey_outputAdded noIdentityKey_outputSpent
      noIdentityKey_outputDeleted noIdentityKey_createBounty noIdentityKey_payBounty
      noIdentityKey_refundExpiredBounty noIdentityKey_cancelBounty storeGitHubIdentity_def
      split: sum.splits if_splits)

lemma noIdentityKey_foldl:
  "noIdentityKey (bounties D) \<Longrightarrow> noIdentityKey (bounties (foldl (step E) D evs))"
  by (induction evs arbitrary: D) (simp_all add: noIdentityKey_step)

lemma noIdentityKey_run: "noIdentityKey (bounties (run E evs))"
  unfolding run_def by (rule noIdentityKey_foldl) (simp add: noIdentityKey_def emptyDb_def)

lemma findAll_identityKey_empty:
  "noIdentityKey docs \<Longrightarrow> findAll (q @ [(''identityKey'', v)]) docs = []"
  by (induction docs) (simp_all add: noIdentityKey_def findAll_def matches_snoc)

text \<open>
  C10. No writer of \<^verbatim>\<open>bounties\<close> sets the field \<^verbatim>\<open>identityKey\<close>: not \<^verbatim>\<open>outputAdded\<close>, not
  \<^verbatim>\<open>createBounty\<close> (it stores \<^verbatim>\<open>funderIdentityKey\<close>), and none of the updates. So after any
  history of the repository's operations, a lookup by the \<^verbatim>\<open>githubUsername\<close> of a registered
  user returns the empty list.
\<close>

theorem lookup_by_registered_username_is_empty:
  assumes "query_githubUsername q = Some name" and "name \<noteq> []"
    and "getGitHubIdentityByUsername (run E evs) name = Some userIdentity"
  shows "lookup q (run E evs) = Formula []"
  using assms findAll_identityKey_empty [OF noIdentityKey_run, of "baseQuery q" _ E evs]
  by (simp add: lookup_def formulaOf_def)

theorem lookup_by_registered_username_is_empty_witness:
  "getGitHubIdentityByUsername (run toy_env toy_history) ''acme''
     = Some \<lparr>username = ''acme'', identityKey = ''key-acme''\<rparr>
   \<and> length (bounties (run toy_env toy_history)) = 2
   \<and> lookup \<lparr>query_issueId = None, query_repoOwner = None, query_githubUsername = Some ''acme'',
             query_status = None\<rparr> (run toy_env toy_history) = Formula []"
proof -
  have a: "getGitHubIdentityByUsername (run toy_env toy_history) ''acme''
     = Some \<lparr>username = ''acme'', identityKey = ''key-acme''\<rparr>"
    by code_simp
  have l: "length (bounties (run toy_env toy_history)) = 2"
    by code_simp
  have "lookup \<lparr>query_issueId = None, query_repoOwner = None,
          query_githubUsername = Some ''acme'', query_status = None\<rparr> (run toy_env toy_history)
        = Formula []"
    using a by (intro lookup_by_registered_username_is_empty [where name = "''acme''"]) simp_all
  with a l show ?thesis by blast
qed

section \<open>Properties of the workflows\<close>

lemma payBounty_fails:
  assumes "findOne (txFilter txid i) (bounties D) = None
     \<or> (\<exists>b. findOne (txFilter txid i) (bounties D) = Some b
            \<and> map_of b ''status'' \<noteq> Some (BString ''active''))
     \<or> getGitHubIdentityByUsername D solver = None
     \<or> (\<exists>b. findOne (txFilter txid i) (bounties D) = Some b
            \<and> identityOfField D (map_of b ''repoOwner'') = None)
     \<or> (\<exists>b sId oId e. findOne (txFilter txid i) (bounties D) = Some b
            \<and> getGitHubIdentityByUsername D solver = Some sId
            \<and> identityOfField D (map_of b ''repoOwner'') = Some oId
            \<and> submitPaySolver E b sId oId solver pr = Inl e)"
  shows "payBounty E now txid i solver pr D = (Inl (Error ''Failed to pay bounty''), D)"
  using assms
  by (auto simp: payBounty_def payBounty_try_def rethrow_def split: option.splits sum.splits)

lemma payBounty_outcome:
  "payBounty E now txid i solver pr D = (Inl (Error ''Failed to pay bounty''), D)
   \<or> (\<exists>b sId oId tx. findOne (txFilter txid i) (bounties D) = Some b
          \<and> map_of b ''status'' = Some (BString ''active'')
          \<and> getGitHubIdentityByUsername D solver = Some sId
          \<and> identityOfField D (map_of b ''repoOwner'') = Some oId
          \<and> submitPaySolver E b sId oId solver pr = Inr tx
          \<and> payBounty E now txid i solver pr D
               = (Inr tx, D\<lparr>bounties := updateOne (txFilter txid i)
                    [(''status'', BString ''completed''),
                     (''solverIdentityKey'', BString (identityKey sId)),
                     (''solutionPullRequestId'', BString pr), (''completedAt'', BDate now)]
                    (bounties D)\<rparr>))"
  by (auto simp: payBounty_def payBounty_try_def rethrow_def
      split: option.splits sum.splits)

lemma refundExpiredBounty_fails:
  assumes "findOne (txFilter txid i) (bounties D) = None
     \<or> (\<exists>b. findOne (txFilter txid i) (bounties D) = Some b
            \<and> (map_of b ''status'' \<noteq> Some (BString ''active'')
                \<or> deadlineNotPassed checked b
                \<or> (\<exists>e. submitRefundExpired E b = Inl e)))"
  shows "refundExpiredBounty E checked now txid i D
           = (Inl (Error ''Failed to refund expired bounty''), D)"
  using assms
  by (auto simp: refundExpiredBounty_def refundExpiredBounty_try_def rethrow_def
      split: option.splits sum.splits)

lemma refundExpiredBounty_outcome:
  "refundExpiredBounty E checked now txid i D
     = (Inl (Error ''Failed to refund expired bounty''), D)
   \<or> (\<exists>b tx. findOne (txFilter txid i) (bounties D) = Some b
          \<and> map_of b ''status'' = Some (BString ''active'')
          \<and> \<not> deadlineNotPassed checked b
          \<and> submitRefundExpired E b = Inr tx
          \<and> refundExpiredBounty E checked now txid i D
               = (Inr tx, D\<lparr>bounties := updateOne (txFilter txid i)
                    [(''status'', BString ''expired''), (''completedAt'', BDate now)]
                    (bounties D)\<rparr>))"
  by (auto simp: refundExpiredBounty_def refundExpiredBounty_try_def rethrow_def
      split: option.splits sum.splits)

lemma cancelBounty_fails:
  assumes "findOne (txFilter txid i) (bounties D) = None
     \<or> (\<exists>b. findOne (txFilter txid i) (bounties D) = Some b
            \<and> (map_of b ''status'' \<noteq> Some (BString ''active'')
                \<or> identityOfField D (map_of b ''repoOwner'') = None
                \<or> (\<exists>oId e. identityOfField D (map_of b ''repoOwner'') = Some oId
                       \<and> submitCancelBounty E b oId = Inl e)))"
  shows "BountyService_cancelBounty E now txid i D = (Inl (Error ''Failed to cancel bounty''), D)"
  using assms
  by (auto simp: BountyService_cancelBounty_def BountyService_cancelBounty_try_def rethrow_def
      split: option.splits sum.splits)

lemma cancelBounty_outcome:
  "BountyService_cancelBounty E now txid i D = (Inl (Error ''Failed to cancel bounty''), D)
   \<or> (\<exists>b oId tx. findOne (txFilter txid i) (bounties D) = Some b
          \<and> map_of b ''status'' = Some (BString ''active'')
          \<and> identityOfField D (map_of b ''repoOwner'') = Some oId
          \<and> submitCancelBounty E b oId = Inr tx
          \<and> BountyService_cancelBounty E now txid i D
               = (Inr tx, D\<lparr>bounties := updateOne (txFilter txid i)
                    [(''status'', BString ''canceled''), (''completedAt'', BDate now)]
                    (bounties D)\<rparr>))"
  by (auto simp: BountyService_cancelBounty_def BountyService_cancelBounty_try_def rethrow_def
      split: option.splits sum.splits)

text \<open>
  C9. Each of \<^verbatim>\<open>payBounty\<close>, \<^verbatim>\<open>refundExpiredBounty\<close> and \<^verbatim>\<open>cancelBounty\<close> is all or nothing.
  When the record is missing or not active, an identity is not registered, the deadline
  has not passed, or the contract call fails, the operation throws its fixed error and
  the database is unchanged. Otherwise the contract call has returned a transaction, and
  only then is the terminal status written to the record.
\<close>

theorem workflow_transitions_atomic:
  "((findOne (txFilter txid i) (bounties D) = None
     \<or> (\<exists>b. findOne (txFilter txid i) (bounties D) = Some b
            \<and> map_of b ''status'' \<noteq> Some (BString ''active''))
     \<or> getGitHubIdentityByUsername D solver = None
     \<or> (\<exists>b. findOne (txFilter txid i) (bounties D) = Some b
            \<and> identityOfField D (map_of b ''repoOwner'') = None)
     \<or> (\<exists>b sId oId e. findOne (txFilter txid i) (bounties D) = Some b
            \<and> getGitHubIdentityByUsername D solver = Some sId
            \<and> identityOfField D (map_of b ''repoOwner'') = Some oId
            \<and> submitPaySolver E b sId oId solver pr = Inl e))
    \<longrightarrow> payBounty E now txid i solver pr D = (Inl (Error ''Failed to pay bounty''), D))
   \<and> (payBounty E now txid i solver pr D = (Inl (Error ''Failed to pay bounty''), D)
       \<or> (\<exists>b sId oId tx. findOne (txFilter txid i) (bounties D) = Some b
          \<and> map_of b ''status'' = Some (BString ''active'')
          \<and> getGitHubIdentityByUsername D solver = Some sId
          \<and> identityOfField D (map_of b ''repoOwner'') = Some oId
          \<and> submitPaySolver E b sId oId solver pr = Inr tx
          \<and> payBounty E now txid i solver pr D
               = (Inr tx, D\<lparr>bounties := updateOne (txFilter txid i)
                    [(''status'', BString ''completed''),
                     (''solverIdentityKey'', BString (identityKey sId)),
                     (''solutionPullRequestId'', BString pr), (''completedAt'', BDate now)]
                    (bounties D)\<rparr>)))
   \<and> ((findOne (txFilter txid i) (bounties D) = None
     \<or> (\<exists>b. findOne (txFilter txid i) (bounties D) = Some b
            \<and> (map_of b ''status'' \<noteq> Some (BString ''active'')
                \<or> deadlineNotPassed checked b
                \<or> (\<exists>e. submitRefundExpired E b = Inl e))))
    \<longrightarrow> refundExpiredBounty E checked now txid i D
           = (Inl (Error ''Failed to refund expired bounty''), D))
   \<and> (refundExpiredBounty E checked now txid i D
         = (Inl (Error ''Failed to refund expired bounty''), D)
       \<or> (\<exists>b tx. findOne (txFilter txid i) (bounties D) = Some b
          \<and> map_of b ''status'' = Some (BString ''active'')
          \<and> \<not> deadlineNotPassed checked b
          \<and> submitRefundExpired E b = Inr tx
          \<and> refundExpiredBounty E checked now txid i D
               = (Inr tx, D\<lparr>bounties := updateOne (txFilter txid i)
                    [(''status'', BString ''expired''), (''completedAt'', BDate now)]
                    (bounties D)\<rparr>)))
   \<and> ((findOne (txFilter txid i) (bounties D) = None
     \<or> (\<exists>b. findOne (txFilter txid i) (bounties D) = Some b
            \<and> (map_of b ''status'' \<noteq> Some (BString ''active'')
                \<or> identityOfField D (map_of b ''repoOwner'') = None
                \<or> (\<exists>oId e. identityOfField D (map_of b ''repoOwner'') = Some oId
                       \<and> submitCancelBounty E b oId = Inl e))))
    \<longrightarrow> BountyService_cancelBounty E now txid i D
           = (Inl (Error ''Failed to cancel bounty''), D))
   \<and> (BountyService_cancelBounty E now txid i D = (Inl (Error ''Failed to cancel bounty''), D)
       \<or> (\<exists>b oId tx. findOne (txFilter txid i) (bounties D) = Some b
          \<and> map_of b ''status'' = Some (BString ''active'')
          \<and> identityOfField D (map_of b ''repoOwner'') = Some oId
          \<and> submitCancelBounty E b oId = Inr tx
          \<and> BountyService_cancelBounty E now txid i D
               = (Inr tx, D\<lparr>bounties := updateOne (txFilter txid i)
                    [(''status'', BString ''canceled''), (''completedAt'', BDate now)]
                    (bounties D)\<rparr>)))"
  by (intro conjI impI payBounty_fails payBounty_outcome refundExpiredBounty_fails
      refundExpiredBounty_outcome cancelBounty_fails cancelBounty_outcome)

theorem workflow_transitions_atomic_witness:
  "getGitHubIdentityByUsername (run toy_env toy_history) ''bob'' = None
   \<and> payBounty toy_env 5000 ''tx1'' 0 ''bob'' ''pr-7'' (run toy_env toy_history)
       = (Inl (Error ''Failed to pay bounty''), run toy_env toy_history)
   \<and> refundExpiredBounty toy_env 1000 1000 ''tx1'' 0 (run toy_env toy_history)
       = (Inl (Error ''Failed to refund expired bounty''), run toy_env toy_history)
   \<and> BountyService_cancelBounty rejecting_env 5000 ''tx1'' 0 (run toy_env toy_history)
       = (Inl (Error ''Failed to cancel bounty''), run toy_env toy_history)
   \<and> fst (payBounty toy_env 5000 ''tx1'' 0 ''alice'' ''pr-7'' (run toy_env toy_history))
       = Inr ''tx-pay''
   \<and> statusOf ''tx1'' 0 ''tm_bounty''
        (snd (payBounty toy_env 5000 ''tx1'' 0 ''alice'' ''pr-7'' (run toy_env toy_history)))
       = Some (BString ''completed'')"
proof -
  let ?D = "run toy_env toy_history"
  let ?b = "the (findOne (txFilter ''tx1'' 0) (bounties ?D))"
  have found: "findOne (txFilter ''tx1'' 0) (bounties ?D) = Some ?b"
    by code_simp
  have bob: "getGitHubIdentityByUsername ?D ''bob'' = None"
    by code_simp
  have early: "deadlineNotPassed 1000 ?b"
    by code_simp
  have owner: "identityOfField ?D (map_of ?b ''repoOwner'')
                 = Some \<lparr>username = ''acme'', identityKey = ''key-acme''\<rparr>"
    by code_simp
  have rejected: "submitCancelBounty rejecting_env ?b
                    \<lparr>username = ''acme'', identityKey = ''key-acme''\<rparr>
                  = Inl (Error ''transaction rejected'')"
    by (simp add: rejecting_env_def)
  have 1: "payBounty toy_env 5000 ''tx1'' 0 ''bob'' ''pr-7'' ?D
             = (Inl (Error ''Failed to pay bounty''), ?D)"
    using workflow_transitions_atomic
      [where E = toy_env and D = ?D and txid = "''tx1''" and i = 0 and solver = "''bob''"
         and pr = "''pr-7''" and now = 5000] bob
    by blast
  have 2: "refundExpiredBounty toy_env 1000 1000 ''tx1'' 0 ?D
             = (Inl (Error ''Failed to refund expired bounty''), ?D)"
    using workflow_transitions_atomic
      [where E = toy_env and D = ?D and txid = "''tx1''" and i = 0 and checked = 1000
         and now = 1000] found early
    by blast
  have 3: "BountyService_cancelBounty rejecting_env 5000 ''tx1'' 0 ?D
             = (Inl (Error ''Failed to cancel bounty''), ?D)"
    using workflow_transitions_atomic
      [where E = rejecting_env and D = ?D and txid = "''tx1''" and i = 0 and now = 5000]
      found owner rejected
    by blast
  have 4: "fst (payBounty toy_env 5000 ''tx1'' 0 ''alice'' ''pr-7'' ?D) = Inr ''tx-pay''"
    by code_simp
  have 5: "statusOf ''tx1'' 0 ''tm_bounty''
             (snd (payBounty toy_env 5000 ''tx1'' 0 ''alice'' ''pr-7'' ?D))
           = Some (BString ''completed'')"
    by code_simp
  show ?thesis
    using bob 1 2 3 4 5 by blast
qed

section \<open>Status transitions\<close>


































section \<open>Properties of the output classifier\<close>



end
